theory Spec2Isabelle
  imports Complex_Main "HOL-Library.Sublist"
begin

section \<open>Python strings and lists\<close>

text \<open>
  A Python \<open>str\<close> is modelled as a \<open>string\<close>, each \<open>char\<close> standing for one code point
  below 256. The operations below are the ones \<open>main.py\<close> applies to strings:
  \<open>sub in s\<close>, \<open>s.find(sub)\<close>, \<open>s.split(sep)\<close>, \<open>s.split(sep, n)\<close>, \<open>s.strip()\<close>,
  \<open>sep.join(xs)\<close> and indexing of a list.
\<close>

datatype exn =
    ValueError string
  | StopIteration
  | IndexError
  | OverflowError string
  | HTTPException nat string
  | LibraryError string

text \<open>\<open>sub in s\<close>: some suffix of \<open>s\<close> starts with \<open>sub\<close>.\<close>

fun py_in :: "string \<Rightarrow> string \<Rightarrow> bool" where
  "py_in sub [] = (sub = [])"
| "py_in sub (c # cs) = (prefix sub (c # cs) \<or> py_in sub cs)"

text \<open>\<open>s.find(sub)\<close>: the lowest index at which \<open>sub\<close> occurs, \<open>None\<close> for Python's \<open>-1\<close>.\<close>

fun py_find :: "string \<Rightarrow> string \<Rightarrow> nat option" where
  "py_find sub [] = (if sub = [] then Some 0 else None)"
| "py_find sub (c # cs) =
     (if prefix sub (c # cs) then Some 0 else map_option Suc (py_find sub cs))"

text \<open>
  \<open>s.split(sep, maxsplit)\<close>: cut at the leftmost occurrence of \<open>sep\<close>, at most \<open>maxsplit\<close>
  times, scanning on behind each occurrence.
\<close>

fun py_split_max :: "string \<Rightarrow> nat \<Rightarrow> string \<Rightarrow> string list" where
  "py_split_max sep 0 s = [s]"
| "py_split_max sep (Suc n) s =
     (case py_find sep s of
        None \<Rightarrow> [s]
      | Some i \<Rightarrow> take i s # py_split_max sep n (drop (i + length sep) s))"

text \<open>
  \<open>s.split(sep)\<close> with no limit. Python raises \<open>ValueError\<close> on an empty separator; every
  separator of \<open>main.py\<close> is a non-empty literal, and the model then returns \<open>[s]\<close>.
\<close>

function py_split :: "string \<Rightarrow> string \<Rightarrow> string list" where
  "py_split sep s =
     (if sep = [] then [s]
      else case py_find sep s of
        None \<Rightarrow> [s]
      | Some i \<Rightarrow> take i s # py_split sep (drop (i + length sep) s))"
  by pat_completeness auto
termination
proof (relation "measure (\<lambda>(sep, s). length s)")
  show "wf (measure (\<lambda>(sep, s). length s))" by simp
next
  fix sep s :: string and i
  assume sep: "sep \<noteq> []" and found: "py_find sep s = Some i"
  have bound: "py_find sep t = Some k \<Longrightarrow> k + length sep \<le> length t" for t k
  proof (induction t arbitrary: k)
    case Nil
    then show ?case by (simp split: if_splits)
  next
    case (Cons c cs)
    show ?case
    proof (cases "prefix sep (c # cs)")
      case True
      with Cons.prems have "k = 0" by simp
      with prefix_length_le [OF True] show ?thesis by simp
    next
      case False
      with Cons.prems obtain j where "py_find sep cs = Some j" "k = Suc j" by auto
      with Cons.IH show ?thesis by simp
    qed
  qed
  from bound [OF found] sep have "length (drop (i + length sep) s) < length s"
    by (cases sep) auto
  then show "((sep, drop (i + length sep) s), (sep, s)) \<in> measure (\<lambda>(sep, s). length s)"
    by simp
qed

declare py_split.simps [simp del]

text \<open>\<open>xs[i]\<close> for a non-negative index: \<open>IndexError\<close> out of range.\<close>

definition getitem :: "'a list \<Rightarrow> nat \<Rightarrow> exn + 'a" where
  "getitem xs i = (if i < length xs then Inr (xs ! i) else Inl IndexError)"

text \<open>
  \<open>c.isspace()\<close> on the code points below 256: tab, line feed, vertical tab, form feed,
  carriage return, the four separators 28 to 31, space, next line (133) and no-break
  space (160).
\<close>

definition isspace :: "char \<Rightarrow> bool" where
  "isspace c = ((of_char c :: nat) \<in> {9, 10, 11, 12, 13, 28, 29, 30, 31, 32, 133, 160})"

definition lstrip :: "string \<Rightarrow> string" where
  "lstrip s = dropWhile isspace s"

definition rstrip :: "string \<Rightarrow> string" where
  "rstrip s = rev (dropWhile isspace (rev s))"

definition strip :: "string \<Rightarrow> string" where
  "strip s = rstrip (lstrip s)"

text \<open>\<open>sep.join(xs)\<close>.\<close>

fun join :: "string \<Rightarrow> string list \<Rightarrow> string" where
  "join sep [] = []"
| "join sep [x] = x"
| "join sep (x # y # ys) = x @ sep @ join sep (y # ys)"

text \<open>Decimal digits of a natural number, as \<open>str(n)\<close> and the format specs print them.\<close>

fun digits :: "nat \<Rightarrow> string" where
  "digits n =
     (if n < 10 then [''0123456789'' ! n]
      else digits (n div 10) @ [''0123456789'' ! (n mod 10)])"

declare digits.simps [simp del]

text \<open>
  The format spec \<open>:02\<close> on an \<open>int\<close>: sign-aware zero padding to a total width of two,
  so that \<open>-1\<close> prints as \<open>-1\<close> and \<open>5\<close> as \<open>05\<close>.
\<close>

definition format_02 :: "int \<Rightarrow> string" where
  "format_02 i =
     (let s = (if i < 0 then ''-'' else ''''); d = digits (nat \<bar>i\<bar>)
      in s @ replicate (2 - length s - length d) CHR ''0'' @ d)"

text \<open>\<open>str(e)\<close> of an exception. Starlette prints an \<open>HTTPException\<close> as status, colon, detail.\<close>

fun str :: "exn \<Rightarrow> string" where
  "str (ValueError m) = m"
| "str StopIteration = ''''"
| "str IndexError = ''list index out of range''"
| "str (OverflowError m) = m"
| "str (HTTPException status detail) = digits status @ '': '' @ detail"
| "str (LibraryError m) = m"

section \<open>URL parser\<close>

definition extract_video_id :: "string \<Rightarrow> exn + string" where
  "extract_video_id url =
     (if py_in ''v='' url then
        (case getitem (py_split ''v='' url) 1 of
           Inl e \<Rightarrow> Inl e
         | Inr rest \<Rightarrow> getitem (py_split ''&'' rest) 0)
      else if py_in ''youtu.be/'' url then
        (case getitem (py_split ''youtu.be/'' url) 1 of
           Inl e \<Rightarrow> Inl e
         | Inr rest \<Rightarrow> getitem (py_split ''?'' rest) 0)
      else Inl (ValueError ''Invalid YouTube URL''))"

section \<open>Floating-point numbers\<close>

text \<open>
  A Python \<open>float\<close> is an IEEE double: a finite value, modelled by the rational number it
  denotes, an infinity or NaN. The sign of zero is not modelled; it does not show in what
  \<open>int\<close> returns.
\<close>

datatype pyfloat = Finite rat | PosInf | NegInf | NaN

text \<open>\<open>n.bit_length()\<close> of a non-negative integer.\<close>

function bit_length :: "int \<Rightarrow> int" where
  "bit_length n = (if n \<le> 0 then 0 else 1 + bit_length (n div 2))"
  by pat_completeness auto
termination
  by (relation "measure nat") auto

declare bit_length.simps [simp del]

definition pow2 :: "int \<Rightarrow> rat" where
  "pow2 e = (if 0 \<le> e then 2 ^ nat e else 1 / 2 ^ nat (- e))"

text \<open>The binary exponent of a non-zero number: the floor of its logarithm to base 2.\<close>

definition exponent :: "rat \<Rightarrow> int" where
  "exponent x =
     (if 1 \<le> \<bar>x\<bar> then bit_length \<lfloor>\<bar>x\<bar>\<rfloor> - 1
      else - bit_length (\<lceil>1 / \<bar>x\<bar>\<rceil> - 1))"

definition round_half_even :: "rat \<Rightarrow> int" where
  "round_half_even q =
     (let f = \<lfloor>q\<rfloor>; d = q - of_int f
      in if d < 1 / 2 then f else if 1 / 2 < d then f + 1 else if even f then f else f + 1)"

text \<open>
  The result of an arithmetic operation is the exact result rounded to 53 significant
  bits, to nearest and ties to even. The operations of \<open>format_time\<close> on a finite float
  neither overflow nor reach the subnormal range, so the exponent is left unbounded.
\<close>

definition round_double :: "rat \<Rightarrow> rat" where
  "round_double x =
     (if x = 0 then 0
      else let e = exponent x - 52
           in of_int (round_half_even (x / pow2 e)) * pow2 e)"

definition trunc :: "rat \<Rightarrow> int" where
  "trunc x = (if x < 0 then \<lceil>x\<rceil> else \<lfloor>x\<rfloor>)"

text \<open>C's \<open>fmod\<close> is exact: the remainder has the sign of \<open>x\<close>.\<close>

definition fmod :: "rat \<Rightarrow> rat \<Rightarrow> rat" where
  "fmod x y = x - y * of_int (trunc (x / y))"

text \<open>
  \<open>v // wx\<close> and \<open>v % wx\<close> for a float \<open>v\<close> and a finite non-zero divisor \<open>wx\<close> (here always
  the literal 60), as CPython computes them: the remainder by \<open>fmod\<close>, the quotient as
  \<open>(vx - mod) / wx\<close> with both operations rounded, both adjusted when the remainder and
  the divisor differ in sign, and the quotient snapped to the nearest whole number. On an
  infinity or NaN both give NaN.
\<close>

definition float_floor_div :: "pyfloat \<Rightarrow> rat \<Rightarrow> pyfloat" where
  "float_floor_div v wx =
     (case v of
        Finite vx \<Rightarrow>
          (let m = fmod vx wx;
               d = round_double (round_double (vx - m) / wx);
               d = (if m \<noteq> 0 \<and> (wx < 0) \<noteq> (m < 0) then round_double (d - 1) else d)
           in if d \<noteq> 0 then
                (let floordiv = of_int \<lfloor>d\<rfloor>
                 in Finite (if 1 / 2 < d - floordiv then round_double (floordiv + 1)
                            else floordiv))
              else Finite 0)
      | _ \<Rightarrow> NaN)"

definition float_rem :: "pyfloat \<Rightarrow> rat \<Rightarrow> pyfloat" where
  "float_rem v wx =
     (case v of
        Finite vx \<Rightarrow>
          (let m = fmod vx wx
           in Finite (if m \<noteq> 0 \<and> (wx < 0) \<noteq> (m < 0) then round_double (m + wx) else m))
      | _ \<Rightarrow> NaN)"

text \<open>\<open>int(v)\<close> truncates a finite float towards zero and raises on NaN and on an infinity.\<close>

definition py_int :: "pyfloat \<Rightarrow> exn + int" where
  "py_int v =
     (case v of
        Finite x \<Rightarrow> Inr (trunc x)
      | NaN \<Rightarrow> Inl (ValueError ''cannot convert float NaN to integer'')
      | _ \<Rightarrow> Inl (OverflowError ''cannot convert float infinity to integer''))"

section \<open>Time formatter\<close>

definition format_time :: "pyfloat \<Rightarrow> exn + string" where
  "format_time seconds =
     (case py_int (float_floor_div seconds 60) of
        Inl e \<Rightarrow> Inl e
      | Inr minutes \<Rightarrow>
     (case py_int (float_rem seconds 60) of
        Inl e \<Rightarrow> Inl e
      | Inr seconds' \<Rightarrow> Inr (format_02 minutes @ '':'' @ format_02 seconds')))"

section \<open>Data model\<close>

text \<open>
  The dictionaries of one transcript entry, as the provider returns them (keys \<open>text\<close>,
  \<open>start\<close>, \<open>duration\<close>) and as \<open>fetch_transcript\<close> returns them (with \<open>time\<close> added).
\<close>

record entry =
  entry_text :: string
  entry_start :: pyfloat
  entry_duration :: pyfloat

record formatted_entry = entry +
  entry_time :: string

record Chapter =
  timestamp :: string
  title :: string

record VideoRequest =
  url :: string
  language :: "string option"

text \<open>The body of a successful response; \<open>detected_language\<close> is its key \<open>language\<close>.\<close>

record chapter_response =
  success :: bool
  video_id :: string
  detected_language :: string
  transcript :: "formatted_entry list"
  full_text :: string
  initial_chapters :: "Chapter list"
  chapters :: "Chapter list"

section \<open>External collaborators\<close>

text \<open>
  One listed track of the transcript provider: its language code and what fetching it
  gives. A \<open>TranscriptList\<close> is the list of its tracks in iteration order.
\<close>

record track =
  language_code :: string
  fetch :: "exn + entry list"

record generation_config =
  temperature :: real
  top_p :: real
  top_k :: nat

text \<open>
  The two services a request calls: \<open>YouTubeTranscriptApi.list_transcripts\<close> and the text of
  \<open>GenerativeModel(model_name, generation_config).generate_content(prompt)\<close>. Either may
  raise.
\<close>

record services =
  list_transcripts :: "string \<Rightarrow> exn + track list"
  generate_content :: "string \<Rightarrow> generation_config \<Rightarrow> string \<Rightarrow> exn + string"

text \<open>
  \<open>transcript_list.find_transcript([code])\<close>: the first listed track with that code. The
  library's \<open>NoTranscriptFound\<close> message is not part of this repository and is shortened.
\<close>

fun find_transcript :: "track list \<Rightarrow> string \<Rightarrow> exn + track" where
  "find_transcript [] code = Inl (LibraryError (''No transcripts were found for '' @ code))"
| "find_transcript (t # ts) code =
     (if language_code t = code then Inr t else find_transcript ts code)"

section \<open>Transcript fetcher\<close>

text \<open>Lines 70 to 76: the language is detected when \<open>not language_code\<close>.\<close>

definition detect_language :: "string option \<Rightarrow> track list \<Rightarrow> exn + string" where
  "detect_language language_code' transcript_list =
     (if language_code' = None \<or> language_code' = Some [] then
        (if ''en'' \<in> set (map language_code transcript_list) then Inr ''en''
         else case transcript_list of
                [] \<Rightarrow> Inl StopIteration
              | t # _ \<Rightarrow> Inr (language_code t))
      else case language_code' of None \<Rightarrow> Inr [] | Some code \<Rightarrow> Inr code)"

text \<open>
  Lines 82 to 90: the list comprehension builds one dictionary per entry, and stops at the
  first entry whose \<open>format_time\<close> raises.
\<close>

definition format_entry :: "entry \<Rightarrow> exn + formatted_entry" where
  "format_entry e =
     (case format_time (entry_start e) of
        Inl x \<Rightarrow> Inl x
      | Inr time \<Rightarrow>
          Inr \<lparr>entry_text = entry_text e, entry_start = entry_start e,
               entry_duration = entry_duration e, entry_time = time\<rparr>)"

fun formatted_transcript :: "entry list \<Rightarrow> exn + formatted_entry list" where
  "formatted_transcript [] = Inr []"
| "formatted_transcript (e # es) =
     (case format_entry e of
        Inl x \<Rightarrow> Inl x
      | Inr f \<Rightarrow>
          (case formatted_transcript es of
             Inl x \<Rightarrow> Inl x
           | Inr fs \<Rightarrow> Inr (f # fs)))"

text \<open>The body of the \<open>try\<close> of \<open>fetch_transcript\<close>.\<close>

definition fetch_transcript_try ::
  "services \<Rightarrow> string \<Rightarrow> string option \<Rightarrow> exn + (formatted_entry list \<times> string)" where
  "fetch_transcript_try svc video_url language_code' =
     (case extract_video_id video_url of
        Inl e \<Rightarrow> Inl e
      | Inr video_id' \<Rightarrow>
     (case list_transcripts svc video_id' of
        Inl e \<Rightarrow> Inl e
      | Inr transcript_list \<Rightarrow>
     (case detect_language language_code' transcript_list of
        Inl e \<Rightarrow> Inl e
      | Inr code \<Rightarrow>
     (case find_transcript transcript_list code of
        Inl e \<Rightarrow> Inl e
      | Inr t \<Rightarrow>
     (case fetch t of
        Inl e \<Rightarrow> Inl e
      | Inr transcript' \<Rightarrow>
     (case formatted_transcript transcript' of
        Inl e \<Rightarrow> Inl e
      | Inr formatted \<Rightarrow> Inr (formatted, code)))))))"

definition fetch_transcript ::
  "services \<Rightarrow> string \<Rightarrow> string option \<Rightarrow> exn + (formatted_entry list \<times> string)" where
  "fetch_transcript svc video_url language_code' =
     (case fetch_transcript_try svc video_url language_code' of
        Inl e \<Rightarrow> Inl (HTTPException 404 (''Error fetching transcript: '' @ str e))
      | Inr r \<Rightarrow> Inr r)"

section \<open>Chapter drafter and refiner\<close>

definition model_name :: string where
  "model_name = ''gemini-2.0-flash''"

definition draft_config :: generation_config where
  "draft_config = \<lparr>temperature = 0.3, top_p = 0.95, top_k = 40\<rparr>"

definition refine_config :: generation_config where
  "refine_config = \<lparr>temperature = 0.1, top_p = 0.95, top_k = 40\<rparr>"

definition transcript_line :: "formatted_entry \<Rightarrow> string" where
  "transcript_line e = ''['' @ entry_time e @ ''] '' @ entry_text e"

definition chapter_line :: "Chapter \<Rightarrow> string" where
  "chapter_line c = timestamp c @ '' - '' @ title c"

definition draft_prompt :: "string \<Rightarrow> string" where
  "draft_prompt transcript_with_timestamps =
     join [CHR 0x0A]
      ['''',
       ''        You are a video summarization assistant that generates clear and concise chapter timestamps for YouTube videos. Your goal is to analyze a provided transcript and the total video duration, and then identify only the major segments of the video in a balanced way. Follow these instructions exactly:'',
       ''        1. Input Details:'',
       ''        - You will receive the full transcript of a YouTube video along with its total duration (e.g., 20:00).'',
       ''        - If the transcript is in a non-English language, first translate it to English before processing.'',
       ''        2. Chapter Creation:'',
       ''        - Identify only significant topic shifts or major modules that represent a clear, substantial change in content.'',
       ''        - Avoid creating chapters for minor transitions or repetitive content. Group similar or consecutive content into one chapter.'',
       ''        - Generate a balanced number of chapters relative to the video length. For a 20-minute video, aim for between 5 to 8 chapters.'',
       ''        - Ensure chapters are evenly distributed across the entire video duration so that early, middle, and later segments are all represented.'',
       ''        - Do not create any chapter timestamps beyond the total video duration. All timestamps must be within the video's length.'',
       ''        3. Timestamp and Output Format:'',
       ''        - Each chapter must include:'',
       ''            - An approximate timestamp in the format MM:SS (e.g., 03:15) that reflects the start time of that major segment.'',
       ''            - A brief, descriptive title summarizing the key topic of that segment.'',
       ''        - List the chapters in sequential order with clearly formatted timestamps (MM:SS).'',
       ''        4. Additional Guidelines:'',
       ''        - Ensure the final chapter reflects the concluding segment of the video, and do not extend beyond the video's total duration.'',
       ''        - Focus on capturing only the essential highlights and avoid over-fragmentation.'',
       ''        - Provide a final, easy-to-follow list of chapters that covers the entire video in a balanced manner.'',
       '''',
       ''        Using these guidelines, generate a set of chapters that accurately represents the key points in the transcript without exceeding the video's actual length.'',
       ''        '',
       ''        TRANSCRIPT WITH TIMESTAMPS:'',
       ''        '' @ transcript_with_timestamps @ ''  # Limiting transcript length to avoid token limits'',
       ''        '',
       ''        OUTPUT FORMAT (ONLY):'',
       ''        00:00 - Introduction'',
       ''        MM:SS - Chapter Title'',
       ''        MM:SS - Chapter Title'',
       ''        ...'',
       ''        '']"
definition refine_prompt :: "string \<Rightarrow> string \<Rightarrow> string" where
  "refine_prompt initial_chapters_formatted transcript_with_timestamps =
     join [CHR 0x0A]
      ['''',
       ''        You are an advanced video summarization assistant specializing in refining chapter timestamps for YouTube videos. Your task is to take the preliminary chapter/timestamp list (generated by another AI) along with the complete transcript of the video, and produce a final, optimized set of chapters. Follow these guidelines:'',
       ''        1. Input:'',
       ''        - You will receive the initial chapters and timestamps (in MM:SS format) that were generated.'',
       ''        - You will also receive the full transcript of the video.'',
       ''        - If the transcript is in a non-English language, first translate it to English before processing.'',
       ''        2. Analysis and Comparison:'',
       ''        - Analyze the preliminary chapter list in the context of the transcript.'',
       ''        - Identify and remove any chapters that are unnecessary, redundant, or overly granular.'',
       ''        - Merge chapters that cover similar or consecutive topics, ensuring that each chapter reflects a significant topic shift.'',
       ''        - Ensure that the chapters cover the entire video and are evenly distributed.'',
       ''        3. Final Chapter Generation:'',
       ''        - Generate a final set of chapters with timestamps in MM:SS format that represent the major segments of the video.'',
       ''        - For a 20-minute video, aim for a balanced number of chapters (typically between 5 to 8).'',
       ''        - Ensure no chapter timestamp extends beyond the total video duration.'',
       ''        - Provide concise and descriptive titles for each chapter that clearly summarize the segment's content.'',
       ''        4. Output:'',
       ''        - Present the final chapter list in sequential order with each chapter's timestamp and title.'',
       ''        - The final list should be clear, balanced, and easy for viewers to navigate.'',
       '''',
       ''        Using these guidelines, generate the final, optimized set of chapters and timestamps that best represent the video content.        '',
       ''        INITIAL CHAPTERS:'',
       ''        '' @ initial_chapters_formatted,
       ''        '',
       ''        TRANSCRIPT WITH TIMESTAMPS:'',
       ''        '' @ transcript_with_timestamps,
       ''        '',
       ''        OUTPUT FORMAT (ONLY):'',
       ''        00:00 - Introduction'',
       ''        MM:SS - Chapter Title'',
       ''        MM:SS - Chapter Title'',
       ''        ...'',
       ''        '']"

text \<open>
  Lines 164 to 169: the loop over the lines of the drafter's response, \<open>chapters\<close> being
  the list built so far.
\<close>

fun draft_loop :: "Chapter list \<Rightarrow> string list \<Rightarrow> exn + Chapter list" where
  "draft_loop chapters' [] = Inr chapters'"
| "draft_loop chapters' (chapter # rest) =
     (if py_in '' - '' chapter then
        (case getitem (py_split '' - '' chapter) 0 of
           Inl e \<Rightarrow> Inl e
         | Inr first_part \<Rightarrow>
             if py_in '':'' first_part then
               (let parts = py_split_max '' - '' 1 chapter in
                case getitem parts 0 of
                  Inl e \<Rightarrow> Inl e
                | Inr p0 \<Rightarrow>
                    (case getitem parts 1 of
                       Inl e \<Rightarrow> Inl e
                     | Inr p1 \<Rightarrow>
                         draft_loop
                           (chapters' @ [\<lparr>timestamp = strip p0, title = strip p1\<rparr>]) rest))
             else draft_loop chapters' rest)
      else draft_loop chapters' rest)"

text \<open>Lines 161 to 171.\<close>

definition draft_parse :: "string \<Rightarrow> exn + Chapter list" where
  "draft_parse response_text = draft_loop [] (py_split [CHR 0x0A] (strip response_text))"

definition generate_chapters_with_gemini ::
  "services \<Rightarrow> formatted_entry list \<Rightarrow> exn + Chapter list" where
  "generate_chapters_with_gemini svc transcript' =
     (let transcript_with_timestamps = join [CHR 0x0A] (map transcript_line transcript');
          prompt = draft_prompt transcript_with_timestamps
      in case (case generate_content svc model_name draft_config prompt of
                 Inl e \<Rightarrow> Inl e
               | Inr response_text \<Rightarrow> draft_parse response_text) of
           Inl e \<Rightarrow> Inl (HTTPException 500 (''Error generating chapters with AI: '' @ str e))
         | Inr chapters' \<Rightarrow> Inr chapters')"

text \<open>Lines 248 to 253: the same loop, written a second time in the refiner.\<close>

fun refine_loop :: "Chapter list \<Rightarrow> string list \<Rightarrow> exn + Chapter list" where
  "refine_loop refined_chapters [] = Inr refined_chapters"
| "refine_loop refined_chapters (chapter # rest) =
     (if py_in '' - '' chapter then
        (case getitem (py_split '' - '' chapter) 0 of
           Inl e \<Rightarrow> Inl e
         | Inr first_part \<Rightarrow>
             if py_in '':'' first_part then
               (let parts = py_split_max '' - '' 1 chapter in
                case getitem parts 0 of
                  Inl e \<Rightarrow> Inl e
                | Inr p0 \<Rightarrow>
                    (case getitem parts 1 of
                       Inl e \<Rightarrow> Inl e
                     | Inr p1 \<Rightarrow>
                         refine_loop
                           (refined_chapters @ [\<lparr>timestamp = strip p0, title = strip p1\<rparr>])
                           rest))
             else refine_loop refined_chapters rest)
      else refine_loop refined_chapters rest)"

text \<open>Lines 245 to 255.\<close>

definition refine_parse :: "string \<Rightarrow> exn + Chapter list" where
  "refine_parse response_text = refine_loop [] (py_split [CHR 0x0A] (strip response_text))"

definition refine_chapters_with_gemini ::
  "services \<Rightarrow> Chapter list \<Rightarrow> formatted_entry list \<Rightarrow> exn + Chapter list" where
  "refine_chapters_with_gemini svc initial_chapters' transcript' =
     (let transcript_with_timestamps = join [CHR 0x0A] (map transcript_line transcript');
          initial_chapters_formatted = join [CHR 0x0A] (map chapter_line initial_chapters');
          prompt = refine_prompt initial_chapters_formatted transcript_with_timestamps
      in case (case generate_content svc model_name refine_config prompt of
                 Inl e \<Rightarrow> Inl e
               | Inr response_text \<Rightarrow> refine_parse response_text) of
           Inl e \<Rightarrow> Inl (HTTPException 500 (''Error refining chapters with AI: '' @ str e))
         | Inr refined_chapters \<Rightarrow> Inr refined_chapters)"

section \<open>Request handler\<close>

text \<open>
  The inner \<open>try\<close> of \<open>generate_chapters\<close> (lines 273 to 293): both model passes and the
  response, any exception becoming a 500.
\<close>

definition ai_stage ::
  "services \<Rightarrow> VideoRequest \<Rightarrow> formatted_entry list \<Rightarrow> string \<Rightarrow> string \<Rightarrow>
   exn + chapter_response" where
  "ai_stage svc request transcript' detected_language' full_text' =
     (case (case generate_chapters_with_gemini svc transcript' of
              Inl e \<Rightarrow> Inl e
            | Inr initial_chapters' \<Rightarrow>
           (case refine_chapters_with_gemini svc initial_chapters' transcript' of
              Inl e \<Rightarrow> Inl e
            | Inr refined_chapters \<Rightarrow>
           (case extract_video_id (url request) of
              Inl e \<Rightarrow> Inl e
            | Inr video_id' \<Rightarrow>
                Inr \<lparr>success = True, video_id = video_id',
                     detected_language = detected_language', transcript = transcript',
                     full_text = full_text', initial_chapters = initial_chapters',
                     chapters = refined_chapters\<rparr>))) of
        Inl ai_error \<Rightarrow> Inl (HTTPException 500 (''Error processing with AI: '' @ str ai_error))
      | Inr r \<Rightarrow> Inr r)"

text \<open>
  The handler: \<open>Inl (HTTPException status detail)\<close> is the response with that status and
  the body \<open>{"detail": detail}\<close>, \<open>Inr r\<close> the 200 response with body \<open>r\<close>. The outer
  \<open>try\<close> has two handlers, \<open>except ValueError\<close> and then \<open>except Exception\<close>; an
  \<open>HTTPException\<close> is an \<open>Exception\<close> and not a \<open>ValueError\<close>.
\<close>

definition generate_chapters :: "services \<Rightarrow> VideoRequest \<Rightarrow> exn + chapter_response" where
  "generate_chapters svc request =
     (case (case fetch_transcript svc (url request) (language request) of
              Inl e \<Rightarrow> Inl e
            | Inr (transcript', detected_language') \<Rightarrow>
                (let full_text' = join '' '' (map entry_text transcript')
                 in ai_stage svc request transcript' detected_language' full_text')) of
        Inl (ValueError m) \<Rightarrow> Inl (HTTPException 400 (str (ValueError m)))
      | Inl e \<Rightarrow> Inl (HTTPException 500 (''An unexpected error occurred: '' @ str e))
      | Inr r \<Rightarrow> Inr r)"

section \<open>Notions of the specification\<close>

text \<open>
  The text of \<open>s\<close> before its first \<open>sep\<close> (all of \<open>s\<close> when there is none), and the text
  behind that first \<open>sep\<close>.
\<close>

definition text_before :: "string \<Rightarrow> string \<Rightarrow> string" where
  "text_before sep s = (case py_find sep s of None \<Rightarrow> s | Some i \<Rightarrow> take i s)"

definition text_after :: "string \<Rightarrow> string \<Rightarrow> string" where
  "text_after sep s = (case py_find sep s of None \<Rightarrow> [] | Some i \<Rightarrow> drop (i + length sep) s)"

text \<open>
  The parsing rule of the specification: a line is kept when it contains \<open>" - "\<close> and
  the text before the first \<open>" - "\<close> contains a colon; a kept line gives the chapter of
  the trimmed texts before and behind that first \<open>" - "\<close>.
\<close>

definition spec_keep :: "string \<Rightarrow> bool" where
  "spec_keep line = (py_in '' - '' line \<and> py_in '':'' (text_before '' - '' line))"

definition spec_chapter :: "string \<Rightarrow> Chapter" where
  "spec_chapter line =
     \<lparr>timestamp = strip (text_before '' - '' line), title = strip (text_after '' - '' line)\<rparr>"

section \<open>Services for concrete runs\<close>

text \<open>A provider that lists no track, and a model that answers with narration only.\<close>

definition narrating_services :: services where
  "narrating_services =
     \<lparr>list_transcripts = (\<lambda>video. Inr []),
      generate_content = (\<lambda>name config prompt. Inr ''Random narration text'')\<rparr>"

text \<open>A number zero-padded to at least two digits.\<close>

definition spec_pad2 :: "nat \<Rightarrow> string" where
  "spec_pad2 n = (if n < 10 then CHR ''0'' # digits n else digits n)"

text \<open>
  A provider that lists a German and an English track, with a model that answers one
  chapter line; the same with a model that fails at the refiner's temperature, once with
  a fixed message and once with a message that repeats the prompt it was given; a request,
  and the transcript and the response the first gives.
\<close>

definition sample_entries :: "entry list" where
  "sample_entries =
     [\<lparr>entry_text = ''Hello'', entry_start = Finite 0, entry_duration = Finite 65\<rparr>,
      \<lparr>entry_text = ''world'', entry_start = Finite 65, entry_duration = Finite 10\<rparr>]"

definition sample_transcript :: "formatted_entry list" where
  "sample_transcript =
     [\<lparr>entry_text = ''Hello'', entry_start = Finite 0, entry_duration = Finite 65,
       entry_time = ''00:00''\<rparr>,
      \<lparr>entry_text = ''world'', entry_start = Finite 65, entry_duration = Finite 10,
       entry_time = ''01:05''\<rparr>]"

definition sample_tracks :: "track list" where
  "sample_tracks =
     [\<lparr>language_code = ''de'', fetch = Inr []\<rparr>,
      \<lparr>language_code = ''en'', fetch = Inr sample_entries\<rparr>]"

definition sample_services :: services where
  "sample_services =
     \<lparr>list_transcripts = (\<lambda>video. Inr sample_tracks),
      generate_content = (\<lambda>name config prompt. Inr ''00:00 - Introduction'')\<rparr>"

definition refine_failing_services :: services where
  "refine_failing_services =
     \<lparr>list_transcripts = (\<lambda>video. Inr sample_tracks),
      generate_content = (\<lambda>name config prompt.
        if temperature config = 0.1 then Inl (LibraryError ''quota exceeded'')
        else Inr ''00:00 - Introduction'')\<rparr>"

definition echoing_services :: services where
  "echoing_services =
     \<lparr>list_transcripts = (\<lambda>video. Inr sample_tracks),
      generate_content = (\<lambda>name config prompt.
        if temperature config = 0.1 then Inl (LibraryError prompt)
        else Inr ''00:00 - Greetings'')\<rparr>"

text \<open>The detail string of the response that the echoing model leads to.\<close>

definition echo_detail :: string where
  "echo_detail =
     ''An unexpected error occurred: 500: Error processing with AI: 500: '' @
     ''Error refining chapters with AI: '' @
     refine_prompt ''00:00 - Greetings''
       (''[00:00] Hello'' @ [CHR 0x0A] @ ''[01:05] world'')"

definition sample_request :: VideoRequest where
  "sample_request = \<lparr>url = ''https://www.youtube.com/watch?v=abc'', language = None\<rparr>"

definition sample_response :: chapter_response where
  "sample_response =
     \<lparr>success = True, video_id = ''abc'', detected_language = ''en'',
      transcript = sample_transcript, full_text = ''Hello world'',
      initial_chapters = [\<lparr>timestamp = ''00:00'', title = ''Introduction''\<rparr>],
      chapters = [\<lparr>timestamp = ''00:00'', title = ''Introduction''\<rparr>]\<rparr>"

section \<open>Substrings, first occurrences and splitting\<close>

lemma py_in_iff_find: "py_in sub s \<longleftrightarrow> py_find sub s \<noteq> None"
  by (induction s) auto

lemma py_find_take_drop:
  "py_find sub s = Some i \<Longrightarrow> s = take i s @ sub @ drop (i + length sub) s"
proof (induction s arbitrary: i)
  case Nil
  then show ?case by (simp split: if_splits)
next
  case (Cons c cs)
  show ?case
  proof (cases "prefix sub (c # cs)")
    case True
    with Cons.prems have "i = 0" by simp
    moreover from True obtain zs where "c # cs = sub @ zs" by (auto simp: prefix_def)
    ultimately show ?thesis by simp
  next
    case False
    with Cons.prems obtain j where j: "py_find sub cs = Some j" "i = Suc j" by auto
    from Cons.IH [OF j(1)] j(2) show ?thesis by simp
  qed
qed

text \<open>\<open>py_find\<close> returns the first occurrence: there is none at a lower index.\<close>

lemma py_find_first:
  "py_find sub s = Some i \<Longrightarrow> j < i \<Longrightarrow> \<not> prefix sub (drop j s)"
proof (induction s arbitrary: i j)
  case Nil
  then show ?case by (simp split: if_splits)
next
  case (Cons c cs)
  from Cons.prems have np: "\<not> prefix sub (c # cs)" by (auto split: if_splits)
  with Cons.prems obtain k where k: "py_find sub cs = Some k" "i = Suc k" by auto
  show ?case
  proof (cases j)
    case 0
    with np show ?thesis by simp
  next
    case (Suc j')
    with Cons.prems k have "j' < k" by simp
    from Cons.IH [OF k(1) this] Suc show ?thesis by simp
  qed
qed

lemma py_find_append:
  "\<not> py_in sub (a @ butlast sub) \<Longrightarrow> py_find sub (a @ sub @ b) = Some (length a)"
proof (induction a)
  case Nil
  then show ?case by (cases sub) auto
next
  case (Cons c a)
  from Cons.prems have 1: "\<not> prefix sub (c # a @ butlast sub)"
    and 2: "\<not> py_in sub (a @ butlast sub)"
    by auto
  have "\<not> prefix sub (c # a @ sub @ b)"
  proof
    assume p: "prefix sub (c # a @ sub @ b)"
    have ne: "sub \<noteq> []" using 1 by auto
    then have "length sub \<le> length (c # a @ butlast sub)" by (cases sub) auto
    moreover have "prefix (c # a @ butlast sub) (c # a @ sub @ b)"
      by (simp add: prefix_def) (metis append_butlast_last_id ne append.assoc)
    ultimately have "prefix sub (c # a @ butlast sub)"
      using p by (meson prefix_length_prefix)
    with 1 show False by simp
  qed
  with Cons.IH [OF 2] show ?case by simp
qed

lemma prefix_py_in: "prefix sub s \<Longrightarrow> py_in sub s"
  by (cases s) auto

lemma py_in_iff: "py_in sub s \<longleftrightarrow> (\<exists>a b. s = a @ sub @ b)"
proof
  assume "py_in sub s"
  then obtain i where "py_find sub s = Some i" by (auto simp: py_in_iff_find)
  from py_find_take_drop [OF this] show "\<exists>a b. s = a @ sub @ b" by blast
next
  assume "\<exists>a b. s = a @ sub @ b"
  then obtain a b where s: "s = a @ sub @ b" by blast
  show "py_in sub s" unfolding s by (induction a) (auto intro: prefix_py_in)
qed

lemma getitem_split_0: "sep \<noteq> [] \<Longrightarrow> getitem (py_split sep s) 0 = Inr (text_before sep s)"
  by (subst py_split.simps) (simp add: getitem_def text_before_def split: option.splits)

lemma split_max_1:
  "py_in sep s \<Longrightarrow> py_split_max sep (Suc 0) s = [text_before sep s, text_after sep s]"
  by (auto simp: py_in_iff_find text_before_def text_after_def)

lemma getitem_pair:
  "getitem [a, b] 0 = Inr a" "getitem [a, b] (Suc 0) = Inr b"
  by (simp_all add: getitem_def)

section \<open>The parsing loops\<close>

text \<open>
  Neither loop raises: the index 0 of a split always exists, and the index 1 of
  \<open>chapter.split(' - ', 1)\<close> exists because the line contains \<open>" - "\<close>.
\<close>

lemma draft_loop_eq:
  "draft_loop acc ls = Inr (acc @ map spec_chapter (filter spec_keep ls))"
proof (induction ls arbitrary: acc)
  case Nil
  show ?case by simp
next
  case (Cons l ls)
  show ?case
  proof (cases "spec_keep l")
    case True
    then have k: "py_in '' - '' l" "py_in '':'' (text_before '' - '' l)"
      by (simp_all add: spec_keep_def)
    show ?thesis
      using True Cons.IH k
      by (simp add: getitem_split_0 split_max_1 getitem_pair spec_chapter_def Let_def
          del: py_split_max.simps)
  next
    case False
    then show ?thesis
      using Cons.IH by (auto simp: getitem_split_0 spec_keep_def)
  qed
qed

lemma refine_loop_eq:
  "refine_loop acc ls = Inr (acc @ map spec_chapter (filter spec_keep ls))"
proof (induction ls arbitrary: acc)
  case Nil
  show ?case by simp
next
  case (Cons l ls)
  show ?case
  proof (cases "spec_keep l")
    case False
    then show ?thesis
      using Cons.IH by (auto simp: getitem_split_0 spec_keep_def)
  next
    case True
    then have k: "py_in '' - '' l" "py_in '':'' (text_before '' - '' l)"
      by (simp_all add: spec_keep_def)
    show ?thesis
      using True Cons.IH k
      by (simp add: getitem_split_0 split_max_1 getitem_pair spec_chapter_def Let_def
          del: py_split_max.simps)
  qed
qed

lemma draft_parse_eq:
  "draft_parse r = Inr (map spec_chapter (filter spec_keep (py_split [CHR 0x0A] (strip r))))"
  by (simp add: draft_parse_def draft_loop_eq)

lemma refine_parse_eq:
  "refine_parse r = Inr (map spec_chapter (filter spec_keep (py_split [CHR 0x0A] (strip r))))"
  by (simp add: refine_parse_def refine_loop_eq)

lemma draft_parse_setup:
  "draft_parse ''02:15 - Setup and Installation'' =
     Inr [\<lparr>timestamp = ''02:15'', title = ''Setup and Installation''\<rparr>]"
  by code_simp

lemma draft_parse_narration: "draft_parse ''Random narration text'' = Inr []"
  by code_simp

lemma narration_no_keep:
  "filter spec_keep (py_split [CHR 0x0A] (strip ''Random narration text'')) = []"
  by code_simp

text \<open>
  C3, as amended. The drafter trims the whole response, splits it at line feeds, keeps
  the lines that contain \<open>" - "\<close> with a colon before the first \<open>" - "\<close>, in their order,
  and turns each into the trimmed texts before and behind that first \<open>" - "\<close>. The line
  \<open>02:15 - Setup and Installation\<close> gives the chapter \<open>02:15\<close>, \<open>Setup and Installation\<close>,
  and \<open>Random narration text\<close> is dropped.
\<close>

theorem chapter_parser_rule:
  "draft_parse r = Inr (map spec_chapter (filter spec_keep (py_split [CHR 0x0A] (strip r)))) \<and>
   draft_parse ''02:15 - Setup and Installation'' =
     Inr [\<lparr>timestamp = ''02:15'', title = ''Setup and Installation''\<rparr>] \<and>
   draft_parse ''Random narration text'' = Inr []"
  using draft_parse_eq draft_parse_setup draft_parse_narration by simp

text \<open>
  C3 as stated, on the lines of the response itself, fails: the response \<open>05:00 - \<close>
  with its trailing space is one line that contains \<open>" - "\<close> behind a colon, and the
  drafter, which trims the response first, drops it.
\<close>

theorem chapter_parser_unstripped_counterexample:
  "draft_parse ''05:00 - '' \<noteq>
     Inr (map spec_chapter (filter spec_keep (py_split [CHR 0x0A] ''05:00 - '')))"
  by code_simp

text \<open>
  C5. On every response the refiner's parsing gives the same list of chapters as the
  drafter's.
\<close>

theorem refiner_parses_as_drafter: "refine_parse r = draft_parse r"
  by (simp add: draft_parse_eq refine_parse_eq)

text \<open>
  C4. Parsing a response always returns a list, in the drafter and in the refiner.
  Whenever the model call returns a text, the drafter and the refiner return a list of
  chapters, and the empty list when no line of the text is kept.
\<close>

theorem parsing_never_raises:
  "(\<exists>cs. draft_parse r = Inr cs) \<and> (\<exists>cs. refine_parse r = Inr cs) \<and>
   (generate_content svc model_name draft_config
        (draft_prompt (join [CHR 0x0A] (map transcript_line t))) = Inr r \<longrightarrow>
      (\<exists>cs. generate_chapters_with_gemini svc t = Inr cs) \<and>
      (filter spec_keep (py_split [CHR 0x0A] (strip r)) = [] \<longrightarrow>
         generate_chapters_with_gemini svc t = Inr [])) \<and>
   (generate_content svc model_name refine_config
        (refine_prompt (join [CHR 0x0A] (map chapter_line ic))
           (join [CHR 0x0A] (map transcript_line t))) = Inr r \<longrightarrow>
      (\<exists>cs. refine_chapters_with_gemini svc ic t = Inr cs) \<and>
      (filter spec_keep (py_split [CHR 0x0A] (strip r)) = [] \<longrightarrow>
         refine_chapters_with_gemini svc ic t = Inr []))"
  by (simp add: draft_parse_eq refine_parse_eq generate_chapters_with_gemini_def
      refine_chapters_with_gemini_def)

theorem parsing_never_raises_witness:
  "generate_chapters_with_gemini narrating_services [] = Inr [] \<and>
   refine_chapters_with_gemini narrating_services [] [] = Inr []"
  using parsing_never_raises [of "''Random narration text''" narrating_services "[]" "[]"]
    narration_no_keep
  by (simp add: narrating_services_def)

section \<open>URL parser\<close>

lemma getitem_split_1:
  assumes sep: "sep \<noteq> []" and "py_in sep s"
  shows "getitem (py_split sep s) (Suc 0) = Inr (text_before sep (text_after sep s))"
proof -
  from assms obtain i where i: "py_find sep s = Some i" by (auto simp: py_in_iff_find)
  have "py_split sep s = take i s # py_split sep (drop (i + length sep) s)"
    using sep i by (subst py_split.simps) simp
  moreover have "getitem (x # xs) (Suc 0) = getitem xs 0" for x :: string and xs
    by (simp add: getitem_def)
  ultimately show ?thesis
    using getitem_split_0 [OF sep] i by (simp add: text_after_def)
qed

lemma extract_video_id_v:
  assumes "py_in ''v='' u"
  shows "extract_video_id u = Inr (text_before ''&'' (text_before ''v='' (text_after ''v='' u)))"
  using assms by (simp add: extract_video_id_def getitem_split_1 getitem_split_0)

lemma py_in_single: "py_in [c] s \<longleftrightarrow> c \<in> set s"
  by (induction s) auto

lemma text_before_append:
  "\<not> py_in sub (a @ butlast sub) \<Longrightarrow> text_before sub (a @ sub @ b) = a"
  by (simp add: text_before_def py_find_append)

lemma text_after_append:
  "\<not> py_in sub (a @ butlast sub) \<Longrightarrow> text_after sub (a @ sub @ b) = b"
  by (simp add: text_after_def py_find_append)

lemma py_find_prefix: "py_find sub s = Some i \<Longrightarrow> prefix sub (drop i s)"
proof -
  assume "py_find sub s = Some i"
  from py_find_take_drop [OF this] have "s = take i s @ (sub @ drop (i + length sub) s)" .
  then have "drop i s = sub @ drop (i + length sub) s"
    by (metis append_take_drop_id same_append_eq)
  then show ?thesis by (simp add: prefix_def)
qed

lemma no_v_before_amp:
  "\<not> py_in ''v='' ident \<Longrightarrow> j \<le> length ident \<Longrightarrow>
   \<not> prefix ''v='' (drop j (ident @ ''&'' @ extra))"
proof (induction ident arbitrary: j)
  case Nil
  then show ?case by simp
next
  case (Cons c cs)
  show ?case
  proof (cases j)
    case 0
    from Cons.prems(1) have "\<not> prefix ''v='' (c # cs)" by simp
    then show ?thesis using 0 by (cases cs) auto
  next
    case (Suc j')
    with Cons.prems have "\<not> py_in ''v='' cs" "j' \<le> length cs" by auto
    from Cons.IH [OF this] Suc show ?thesis by simp
  qed
qed

lemma text_before_v_keeps_ident:
  assumes "\<not> py_in ''v='' ident"
  shows "\<exists>w. text_before ''v='' (ident @ ''&'' @ extra) = ident @ ''&'' @ w"
proof (cases "py_find ''v='' (ident @ ''&'' @ extra)")
  case None
  then show ?thesis by (simp add: text_before_def)
next
  case (Some j)
  have far: "\<not> j \<le> length ident"
  proof
    assume "j \<le> length ident"
    from no_v_before_amp [OF assms this, of extra] py_find_prefix [OF Some]
    show False by (rule notE)
  qed
  then obtain k where k: "j - length ident = Suc k"
    by (cases "j - length ident") auto
  from far have "take j (ident @ ''&'' @ extra) = ident @ take (j - length ident) (''&'' @ extra)"
    by simp
  also from k have "\<dots> = ident @ ''&'' @ take k extra"
    by (simp only: take_Suc_Cons append_Cons append_Nil)
  finally show ?thesis
    using Some by (simp add: text_before_def)
qed

text \<open>
  Where the first \<open>v=\<close> of the URL is followed by an identifier without \<open>&\<close> and without
  \<open>v=\<close>, and then by \<open>&\<close>, that identifier is extracted.
\<close>

lemma extract_video_id_first_v:
  "\<not> py_in ''v='' (pre @ ''v'') \<and> \<not> py_in ''v='' ident \<and> CHR ''&'' \<notin> set ident \<Longrightarrow>
   extract_video_id (pre @ ''v='' @ ident @ ''&'' @ extra) = Inr ident"
proof -
  assume a: "\<not> py_in ''v='' (pre @ ''v'') \<and> \<not> py_in ''v='' ident \<and> CHR ''&'' \<notin> set ident"
  let ?u = "pre @ ''v='' @ ident @ ''&'' @ extra"
  have "py_in ''v='' ?u" by (auto simp: py_in_iff)
  then have "extract_video_id ?u =
      Inr (text_before ''&'' (text_before ''v='' (text_after ''v='' ?u)))"
    by (rule extract_video_id_v)
  moreover have "text_after ''v='' ?u = ident @ ''&'' @ extra"
    using a text_after_append [of "''v=''" pre "ident @ ''&'' @ extra"] by simp
  moreover obtain w where "text_before ''v='' (ident @ ''&'' @ extra) = ident @ ''&'' @ w"
    using a text_before_v_keeps_ident by blast
  moreover have "text_before ''&'' (ident @ ''&'' @ w) = ident" for w
    using a text_before_append [of "''&''" ident w] by (simp add: py_in_single)
  ultimately show "extract_video_id ?u = Inr ident" by simp
qed

text \<open>
  C7. The identifier of a URL that contains \<open>v=ID&extra\<close> is \<open>ID\<close>, the text behind \<open>v=\<close> up
  to the next \<open>&\<close>. The code misses it where the URL has more than one \<open>v=\<close>:
  \<open>url.split('v=')[1]\<close> is the text between the first two of them. With \<open>rev=2\<close> before
  \<open>v=ID&extra\<close> it returns \<open>2\<close>, and with \<open>v=abcv=d&x\<close> it returns \<open>abc\<close>, where the text up to
  the next \<open>&\<close> is \<open>abcv=d\<close>.
\<close>

theorem video_id_divergence:
  "py_in ''v=ID&extra'' ''https://www.youtube.com/watch?rev=2&v=ID&extra'' \<and>
   extract_video_id ''https://www.youtube.com/watch?rev=2&v=ID&extra'' = Inr ''2'' \<and>
   py_in ''v='' ''https://www.youtube.com/watch?v=abcv=d&x'' \<and>
   text_before ''&'' (text_after ''v='' ''https://www.youtube.com/watch?v=abcv=d&x'') = ''abcv=d'' \<and>
   extract_video_id ''https://www.youtube.com/watch?v=abcv=d&x'' = Inr ''abc''"
proof (intro conjI)
  show "py_in ''v=ID&extra'' ''https://www.youtube.com/watch?rev=2&v=ID&extra''"
    by code_simp
  show "extract_video_id ''https://www.youtube.com/watch?rev=2&v=ID&extra'' = Inr ''2''"
    by code_simp
  show "py_in ''v='' ''https://www.youtube.com/watch?v=abcv=d&x''"
    by code_simp
  show "text_before ''&'' (text_after ''v='' ''https://www.youtube.com/watch?v=abcv=d&x'') =
      ''abcv=d''"
    by code_simp
  show "extract_video_id ''https://www.youtube.com/watch?v=abcv=d&x'' = Inr ''abc''"
    by code_simp
qed

section \<open>Time formatter on floats\<close>

lemma length_digits_small: "n < 10 \<Longrightarrow> length (digits n) = 1"
  by (subst digits.simps) simp

lemma length_digits_pos: "0 < length (digits n)"
  by (subst digits.simps) simp

lemma length_digits_large: "10 \<le> n \<Longrightarrow> 2 \<le> length (digits n)"
proof -
  assume "10 \<le> n"
  then have "digits n = digits (n div 10) @ [''0123456789'' ! (n mod 10)]"
    by (subst digits.simps) simp
  moreover have "Suc 0 \<le> length (digits (n div 10))"
    using length_digits_pos [of "n div 10"] by (simp only: Suc_le_eq)
  ultimately show ?thesis by simp
qed

lemma format_02_nonneg: "0 \<le> i \<Longrightarrow> format_02 i = spec_pad2 (nat i)"
proof (cases "nat i < 10")
  case True
  assume "0 \<le> i"
  with True length_digits_small [OF True] show ?thesis
    by (simp add: format_02_def spec_pad2_def Let_def)
next
  case False
  assume "0 \<le> i"
  with False length_digits_large [of "nat i"] show ?thesis
    by (simp add: format_02_def spec_pad2_def Let_def)
qed

lemma bit_length_le: "0 \<le> k \<Longrightarrow> n < 2 ^ nat k \<Longrightarrow> bit_length n \<le> k"
proof (induction n arbitrary: k rule: bit_length.induct)
  case (1 n)
  show ?case
  proof (cases "n \<le> 0")
    case True
    with "1.prems" show ?thesis by (subst bit_length.simps) simp
  next
    case False
    with "1.prems" have kpos: "0 < k" by (cases "k = 0") auto
    then have "nat k = Suc (nat (k - 1))" by simp
    with "1.prems" have "n < 2 * 2 ^ nat (k - 1)" by simp
    then have "n div 2 < 2 ^ nat (k - 1)" by simp
    with "1.IH" [OF False, of "k - 1"] kpos have "bit_length (n div 2) \<le> k - 1" by simp
    with False show ?thesis by (subst bit_length.simps) simp
  qed
qed

lemma round_half_even_int: "round_half_even (of_int z) = z"
  by (simp add: round_half_even_def)

text \<open>A whole number below \<open>2 ^ 53\<close> is a double: rounding leaves it as it is.\<close>

lemma round_double_int:
  assumes "0 \<le> n" "n < 2 ^ 53"
  shows "round_double (of_int n) = of_int n"
proof (cases "n = 0")
  case True
  then show ?thesis by (simp add: round_double_def)
next
  case False
  with assms have pos: "1 \<le> n" by simp
  then have ex: "exponent (of_int n) = bit_length n - 1"
    by (simp add: exponent_def)
  have "n < 2 ^ nat 53" using assms(2) by simp
  with bit_length_le [of 53 n] have le: "bit_length n \<le> 53" by simp
  define j where "j = nat (53 - bit_length n)"
  with le ex have j: "exponent (of_int n) - 52 = - int j" by simp
  have p: "pow2 (- int j) = 1 / 2 ^ j"
    by (cases "j = 0") (simp_all add: pow2_def)
  have "of_int n / pow2 (- int j) = (of_int (n * 2 ^ j) :: rat)"
    by (simp add: p)
  then have "round_half_even (of_int n / pow2 (- int j)) = n * 2 ^ j"
    by (simp only: round_half_even_int)
  then show ?thesis
    using False j by (simp add: round_double_def Let_def p)
qed

lemma floor_div_60: "\<lfloor>s / 60\<rfloor> = \<lfloor>s\<rfloor> div 60" for s :: rat
proof (rule floor_unique)
  define x where "x = \<lfloor>s\<rfloor>"
  define q where "q = x div 60"
  have f: "of_int x \<le> s" "s < of_int x + 1" unfolding x_def by linarith+
  have "60 * q \<le> x" "x + 1 \<le> 60 * (q + 1)" unfolding q_def by presburger+
  then have "(of_int (60 * q) :: rat) \<le> of_int x" "(of_int (x + 1) :: rat) \<le> of_int (60 * (q + 1))"
    by (simp_all only: of_int_le_iff)
  then have r: "60 * (of_int q :: rat) \<le> of_int x" "(of_int x :: rat) + 1 \<le> 60 * (of_int q + 1)"
    by simp_all
  from r(1) f(1) have "of_int q * 60 \<le> s" by linarith
  then show "of_int (\<lfloor>s\<rfloor> div 60) \<le> s / 60" by (simp add: q_def x_def)
  from r(2) f(2) have "s < (of_int q + 1) * 60" by linarith
  then show "s / 60 < of_int (\<lfloor>s\<rfloor> div 60) + 1" by (simp add: q_def x_def)
qed

lemma fmod_nonneg:
  assumes "0 \<le> s"
  shows "fmod s 60 = s - 60 * of_int \<lfloor>s / 60\<rfloor>"
  using assms by (simp add: fmod_def trunc_def)

lemma fmod_range:
  assumes "0 \<le> s"
  shows "0 \<le> fmod s 60 \<and> fmod s 60 < 60"
proof -
  have "of_int \<lfloor>s / 60\<rfloor> \<le> s / 60" "s / 60 < of_int \<lfloor>s / 60\<rfloor> + 1"
    by linarith+
  then show ?thesis by (simp add: fmod_nonneg [OF assms] field_simps)
qed

lemma floor_fmod:
  assumes "0 \<le> s"
  shows "\<lfloor>fmod s 60\<rfloor> = \<lfloor>s\<rfloor> mod 60"
proof -
  have "\<lfloor>s - of_int (60 * \<lfloor>s / 60\<rfloor>)\<rfloor> = \<lfloor>s\<rfloor> - 60 * \<lfloor>s / 60\<rfloor>"
    by (rule floor_diff_of_int)
  then show ?thesis
    by (simp add: fmod_nonneg [OF assms] floor_div_60 minus_mult_div_eq_mod)
qed

lemma float_floor_div_exact:
  assumes "0 \<le> s" "s < 2 ^ 53"
  shows "float_floor_div (Finite s) 60 = Finite (of_int \<lfloor>s / 60\<rfloor>)"
proof -
  let ?q = "\<lfloor>s / 60\<rfloor>"
  from assms(1) have q0: "0 \<le> ?q" by simp
  have "of_int ?q \<le> s / 60" by linarith
  then have "(of_int (60 * ?q) :: rat) \<le> s" by simp
  with assms(2) have "(of_int (60 * ?q) :: rat) < of_int (2 ^ 53)" by simp
  then have b: "60 * ?q < 2 ^ 53" by (simp only: of_int_less_iff)
  with q0 have b': "?q < 2 ^ 53" by linarith
  have 1: "s - fmod s 60 = of_int (60 * ?q)"
    by (simp add: fmod_nonneg [OF assms(1)])
  have 2: "round_double (of_int (60 * ?q)) = of_int (60 * ?q)"
    using q0 b by (intro round_double_int) simp_all
  have 3: "(of_int (60 * ?q) :: rat) / 60 = of_int ?q" by simp
  have 4: "round_double (of_int ?q) = of_int ?q"
    using q0 b' by (rule round_double_int)
  have d: "round_double (round_double (s - fmod s 60) / 60) = of_int ?q"
    by (simp only: 1 2 3 4)
  from fmod_range [OF assms(1)] have m: "\<not> fmod s 60 < 0" by simp
  show ?thesis
    using m by (simp add: float_floor_div_def Let_def d)
qed

lemma float_rem_exact:
  assumes "0 \<le> s"
  shows "float_rem (Finite s) 60 = Finite (fmod s 60)"
  using fmod_range [OF assms] by (simp add: float_rem_def Let_def)

lemma format_time_nonneg:
  assumes "0 \<le> s" "s < 2 ^ 53"
  shows "format_time (Finite s) =
    Inr (spec_pad2 (nat \<lfloor>s / 60\<rfloor>) @ '':'' @ spec_pad2 (nat \<lfloor>fmod s 60\<rfloor>))"
proof -
  from assms(1) have q0: "0 \<le> \<lfloor>s / 60\<rfloor>" by simp
  from fmod_range [OF assms(1)] have m0: "0 \<le> \<lfloor>fmod s 60\<rfloor>" "\<not> fmod s 60 < 0" by simp_all
  have a: "py_int (float_floor_div (Finite s) 60) = Inr \<lfloor>s / 60\<rfloor>"
    using q0 by (simp add: float_floor_div_exact [OF assms] py_int_def trunc_def)
  have b: "py_int (float_rem (Finite s) 60) = Inr \<lfloor>fmod s 60\<rfloor>"
    using m0 by (simp add: float_rem_exact [OF assms(1)] py_int_def trunc_def)
  show ?thesis
    using q0 m0(1) by (simp add: format_time_def a b format_02_nonneg)
qed

lemma pad2_seconds: "length (spec_pad2 (nat (k mod 60))) = 2"
proof -
  have "nat (k mod 60) < 60" by simp
  then consider "nat (k mod 60) < 10" | "10 \<le> nat (k mod 60)" "nat (k mod 60) < 100"
    by linarith
  then show ?thesis
  proof cases
    case 1
    then show ?thesis by (simp add: spec_pad2_def length_digits_small)
  next
    case 2
    then have "nat (k mod 60) div 10 < 10" by simp
    from length_digits_small [OF this] 2(1) show ?thesis
      by (subst spec_pad2_def, subst digits.simps) simp
  qed
qed

text \<open>
  C8, as amended. For a float that is not negative and below \<open>2 ^ 53\<close>, \<open>format_time\<close>
  prints the floor of the seconds over 60, zero-padded to at least two digits, a colon,
  and the floor of the seconds modulo 60, zero-padded to exactly two digits; the latter
  is the whole seconds modulo 60. The times 0, 65, 3599 and 3600 print as \<open>00:00\<close>,
  \<open>01:05\<close>, \<open>59:59\<close> and \<open>60:00\<close>.
\<close>

theorem format_time_minutes_seconds:
  "0 \<le> s \<Longrightarrow> s < 2 ^ 53 \<Longrightarrow>
   format_time (Finite s) =
     Inr (spec_pad2 (nat \<lfloor>s / 60\<rfloor>) @ '':'' @ spec_pad2 (nat \<lfloor>fmod s 60\<rfloor>)) \<and>
   \<lfloor>fmod s 60\<rfloor> = \<lfloor>s\<rfloor> mod 60 \<and>
   length (spec_pad2 (nat \<lfloor>fmod s 60\<rfloor>)) = 2"
  using format_time_nonneg [of s] floor_fmod [of s] pad2_seconds [of "\<lfloor>s\<rfloor>"]
  by simp

lemma pad_examples:
  "spec_pad2 (nat \<lfloor>(0::rat) / 60\<rfloor>) = ''00''" "spec_pad2 (nat \<lfloor>fmod 0 60\<rfloor>) = ''00''"
  "spec_pad2 (nat \<lfloor>(65::rat) / 60\<rfloor>) = ''01''" "spec_pad2 (nat \<lfloor>fmod 65 60\<rfloor>) = ''05''"
  "spec_pad2 (nat \<lfloor>(3599::rat) / 60\<rfloor>) = ''59''" "spec_pad2 (nat \<lfloor>fmod 3599 60\<rfloor>) = ''59''"
  "spec_pad2 (nat \<lfloor>(3600::rat) / 60\<rfloor>) = ''60''" "spec_pad2 (nat \<lfloor>fmod 3600 60\<rfloor>) = ''00''"
  by code_simp+

theorem format_time_minutes_seconds_witness:
  "format_time (Finite 0) = Inr ''00:00'' \<and> format_time (Finite 65) = Inr ''01:05'' \<and>
   format_time (Finite 3599) = Inr ''59:59'' \<and> format_time (Finite 3600) = Inr ''60:00''"
proof -
  have r: "(0::rat) \<le> 0" "(0::rat) < 2 ^ 53" "(0::rat) \<le> 65" "(65::rat) < 2 ^ 53"
    "(0::rat) \<le> 3599" "(3599::rat) < 2 ^ 53" "(0::rat) \<le> 3600" "(3600::rat) < 2 ^ 53"
    by simp_all
  have a: "format_time (Finite 0) = Inr ''00:00''"
    using format_time_minutes_seconds [OF r(1,2), THEN conjunct1]
    by (simp only: pad_examples) simp
  have b: "format_time (Finite 65) = Inr ''01:05''"
    using format_time_minutes_seconds [OF r(3,4), THEN conjunct1]
    by (simp only: pad_examples) simp
  have c: "format_time (Finite 3599) = Inr ''59:59''"
    using format_time_minutes_seconds [OF r(5,6), THEN conjunct1]
    by (simp only: pad_examples) simp
  have d: "format_time (Finite 3600) = Inr ''60:00''"
    using format_time_minutes_seconds [OF r(7,8), THEN conjunct1]
    by (simp only: pad_examples) simp
  from a b c d show ?thesis by (intro conjI)
qed

lemma huge_div: "float_floor_div (Finite (2 ^ 63)) 60 = Finite 153722867280912928"
  by code_simp

lemma huge_rem: "float_rem (Finite (2 ^ 63)) 60 = Finite 8"
  by code_simp

lemma huge_floor: "\<lfloor>(2 ^ 63 :: rat) / 60\<rfloor> = 153722867280912930"
  by code_simp

lemma digits_huge:
  "digits 153722867280912928 = ''153722867280912928''"
  "digits 153722867280912930 = ''153722867280912930''"
  "digits 8 = ''8''"
  by (simp_all add: digits.simps)

lemma format_time_huge: "format_time (Finite (2 ^ 63)) = Inr ''153722867280912928:08''"
  by (simp only: format_time_def huge_div huge_rem)
    (simp add: py_int_def trunc_def format_02_def digits_huge Let_def)

lemma pad_huge: "spec_pad2 (nat \<lfloor>(2 ^ 63 :: rat) / 60\<rfloor>) = ''153722867280912930''"
  by (simp only: huge_floor) (simp add: spec_pad2_def digits_huge)

lemma format_time_inf:
  "format_time PosInf = Inl (ValueError ''cannot convert float NaN to integer'')"
  by (simp add: format_time_def float_floor_div_def py_int_def)

text \<open>
  C8 as stated, for every float that is not negative, fails. At \<open>2 ^ 63\<close> seconds the
  difference \<open>2 ^ 63 - 8\<close> and its quotient by 60 are both rounded to 53 bits, and the
  minutes printed are 153722867280912928, where the floor of the seconds over 60 is
  153722867280912930. At infinity the quotient is NaN and \<open>int\<close> raises.
\<close>

theorem format_time_rounding_counterexample:
  "format_time (Finite (2 ^ 63)) = Inr ''153722867280912928:08'' \<and>
   spec_pad2 (nat \<lfloor>(2 ^ 63 :: rat) / 60\<rfloor>) = ''153722867280912930'' \<and>
   format_time PosInf = Inl (ValueError ''cannot convert float NaN to integer'')"
  using format_time_huge pad_huge format_time_inf by (intro conjI)

section \<open>Transcript fetcher and request handler\<close>

lemma extract_sample: "extract_video_id ''https://www.youtube.com/watch?v=abc'' = Inr ''abc''"
  by code_simp

lemma extract_invalid:
  "extract_video_id ''https://example.com/video'' = Inl (ValueError ''Invalid YouTube URL'')"
  by code_simp

lemma digits_status: "digits 404 = ''404''" "digits 500 = ''500''"
  by code_simp+

lemma draft_parse_intro:
  "draft_parse ''00:00 - Introduction'' = Inr [\<lparr>timestamp = ''00:00'', title = ''Introduction''\<rparr>]"
  by code_simp

lemma format_time_samples:
  "format_time (Finite 0) = Inr ''00:00''" "format_time (Finite 65) = Inr ''01:05''"
proof -
  have r: "(0::rat) \<le> 0" "(0::rat) < 2 ^ 53" "(0::rat) \<le> 65" "(65::rat) < 2 ^ 53"
    by simp_all
  show "format_time (Finite 0) = Inr ''00:00''"
    using format_time_nonneg [OF r(1,2)] by (simp only: pad_examples) simp
  show "format_time (Finite 65) = Inr ''01:05''"
    using format_time_nonneg [OF r(3,4)] by (simp only: pad_examples) simp
qed

lemma formatted_sample: "formatted_transcript sample_entries = Inr sample_transcript"
  by (simp add: sample_entries_def sample_transcript_def format_entry_def format_time_samples)

lemma fetch_sample:
  "list_transcripts svc ''abc'' = Inr sample_tracks \<Longrightarrow>
   fetch_transcript svc ''https://www.youtube.com/watch?v=abc'' None =
     Inr (sample_transcript, ''en'')"
  by (simp add: fetch_transcript_def fetch_transcript_try_def extract_sample
      detect_language_def sample_tracks_def formatted_sample)

lemma draft_sample:
  "generate_content svc model_name draft_config
     (draft_prompt (join [CHR 0x0A] (map transcript_line t))) = Inr ''00:00 - Introduction'' \<Longrightarrow>
   generate_chapters_with_gemini svc t = Inr [\<lparr>timestamp = ''00:00'', title = ''Introduction''\<rparr>]"
  by (simp add: generate_chapters_with_gemini_def Let_def draft_parse_intro)

lemma refine_sample:
  "generate_content svc model_name refine_config
     (refine_prompt (join [CHR 0x0A] (map chapter_line ic))
        (join [CHR 0x0A] (map transcript_line t))) = Inr ''00:00 - Introduction'' \<Longrightarrow>
   refine_chapters_with_gemini svc ic t = Inr [\<lparr>timestamp = ''00:00'', title = ''Introduction''\<rparr>]"
  by (simp add: refine_chapters_with_gemini_def Let_def refine_parse_eq
      draft_parse_eq [symmetric] draft_parse_intro)

lemma sample_full_text:
  "join '' '' (map entry_text sample_transcript) = ''Hello world''"
  by (simp add: sample_transcript_def)

lemma sample_run: "generate_chapters sample_services sample_request = Inr sample_response"
proof -
  have f: "fetch_transcript sample_services ''https://www.youtube.com/watch?v=abc'' None =
      Inr (sample_transcript, ''en'')"
    by (rule fetch_sample) (simp add: sample_services_def)
  have d: "generate_chapters_with_gemini sample_services t =
      Inr [\<lparr>timestamp = ''00:00'', title = ''Introduction''\<rparr>]" for t
    by (rule draft_sample) (simp add: sample_services_def)
  have r: "refine_chapters_with_gemini sample_services ic t =
      Inr [\<lparr>timestamp = ''00:00'', title = ''Introduction''\<rparr>]" for ic t
    by (rule refine_sample) (simp add: sample_services_def)
  show ?thesis
    by (simp add: generate_chapters_def ai_stage_def sample_request_def f d r Let_def
        extract_sample sample_full_text sample_response_def)
qed

lemma fetch_transcript_error:
  "fetch_transcript svc u l = Inl e \<Longrightarrow> \<exists>cause. e = HTTPException 404 (''Error fetching transcript: '' @ cause)"
  by (auto simp: fetch_transcript_def split: sum.splits)

lemma handler_fetch_error:
  "fetch_transcript svc (url req) (language req) = Inl (HTTPException 404 d) \<Longrightarrow>
   generate_chapters svc req =
     Inl (HTTPException 500 (''An unexpected error occurred: 404: '' @ d))"
  by (simp add: generate_chapters_def digits_status)

lemma invalid_url_fetch:
  "\<not> py_in ''v='' u \<Longrightarrow> \<not> py_in ''youtu.be/'' u \<Longrightarrow>
   fetch_transcript svc u l =
     Inl (HTTPException 404 ''Error fetching transcript: Invalid YouTube URL'')"
  by (simp add: fetch_transcript_def fetch_transcript_try_def extract_video_id_def)

lemma example_url_invalid:
  "\<not> py_in ''v='' ''https://example.com/video''"
  "\<not> py_in ''youtu.be/'' ''https://example.com/video''"
  by code_simp+

text \<open>
  C1. The URL \<open>https://example.com/video\<close> contains neither \<open>v=\<close> nor \<open>youtu.be/\<close>. The
  \<open>ValueError\<close> of \<open>extract_video_id\<close> is raised inside the \<open>try\<close> of \<open>fetch_transcript\<close>,
  which turns it into an \<open>HTTPException\<close> with status 404; the handler's
  \<open>except ValueError\<close> does not match that, its \<open>except Exception\<close> does, and the response
  has status 500, not 400.
\<close>

theorem invalid_url_status:
  "fetch_transcript svc ''https://example.com/video'' lang =
     Inl (HTTPException 404 ''Error fetching transcript: Invalid YouTube URL'') \<and>
   generate_chapters svc \<lparr>url = ''https://example.com/video'', language = lang\<rparr> =
     Inl (HTTPException 500
       ''An unexpected error occurred: 404: Error fetching transcript: Invalid YouTube URL'')"
proof -
  have f: "fetch_transcript svc ''https://example.com/video'' lang =
      Inl (HTTPException 404 ''Error fetching transcript: Invalid YouTube URL'')"
    by (rule invalid_url_fetch) (rule example_url_invalid)+
  have "generate_chapters svc \<lparr>url = ''https://example.com/video'', language = lang\<rparr> =
      Inl (HTTPException 500 (''An unexpected error occurred: 404: '' @
        ''Error fetching transcript: Invalid YouTube URL''))"
    by (rule handler_fetch_error) (simp add: f)
  with f show ?thesis by simp
qed

text \<open>
  C9. With no language supplied and an empty listing, \<open>next(iter(transcript_list))\<close>
  raises \<open>StopIteration\<close>; \<open>fetch_transcript\<close> turns it into an \<open>HTTPException\<close> with status
  404, and the handler's \<open>except Exception\<close> turns that into a response with status 500.
\<close>

theorem empty_listing_status:
  "fetch_transcript narrating_services ''https://www.youtube.com/watch?v=abc'' None =
     Inl (HTTPException 404 ''Error fetching transcript: '') \<and>
   generate_chapters narrating_services
       \<lparr>url = ''https://www.youtube.com/watch?v=abc'', language = None\<rparr> =
     Inl (HTTPException 500 ''An unexpected error occurred: 404: Error fetching transcript: '')"
proof -
  have f: "fetch_transcript narrating_services ''https://www.youtube.com/watch?v=abc'' None =
      Inl (HTTPException 404 ''Error fetching transcript: '')"
    by (simp add: fetch_transcript_def fetch_transcript_try_def extract_sample
        detect_language_def narrating_services_def)
  have "generate_chapters narrating_services
        \<lparr>url = ''https://www.youtube.com/watch?v=abc'', language = None\<rparr> =
      Inl (HTTPException 500 (''An unexpected error occurred: 404: '' @
        ''Error fetching transcript: ''))"
    by (rule handler_fetch_error) (simp add: f)
  with f show ?thesis by simp
qed

lemma join_cases:
  "join sep xs = (case xs of [] \<Rightarrow> [] | x # ys \<Rightarrow> x @ concat (map (\<lambda>y. sep @ y) ys))"
  by (induction sep xs rule: join.induct) simp_all

lemma handler_success:
  assumes "generate_chapters svc req = Inr r"
  shows "\<exists>t l. fetch_transcript svc (url req) (language req) = Inr (t, l) \<and>
           transcript r = t \<and> detected_language r = l \<and>
           full_text r = join '' '' (map entry_text t)"
proof (cases "fetch_transcript svc (url req) (language req)")
  case (Inl e)
  with assms show ?thesis
    by (simp add: generate_chapters_def split: exn.splits)
next
  case (Inr p)
  obtain t l where p: "p = (t, l)" by (cases p)
  from assms Inr p have "ai_stage svc req t l (join '' '' (map entry_text t)) = Inr r"
    by (simp add: generate_chapters_def Let_def split: sum.splits exn.splits)
  then have "transcript r = t \<and> detected_language r = l \<and>
      full_text r = join '' '' (map entry_text t)"
    by (auto simp: ai_stage_def split: sum.splits)
  with Inr p show ?thesis by simp
qed

text \<open>
  C2, as amended. In every successful response, \<open>full_text\<close> is the texts of the entries
  of the transcript, in their order, with one space between consecutive texts.
\<close>

theorem full_text_joined:
  "generate_chapters svc req = Inr r \<Longrightarrow>
   full_text r =
     (case map entry_text (transcript r) of
        [] \<Rightarrow> []
      | x # ys \<Rightarrow> x @ concat (map (\<lambda>y. '' '' @ y) ys))"
proof -
  assume "generate_chapters svc req = Inr r"
  from handler_success [OF this]
  have "full_text r = join '' '' (map entry_text (transcript r))" by auto
  then show ?thesis by (simp only: join_cases)
qed

theorem full_text_joined_witness:
  "generate_chapters sample_services sample_request = Inr sample_response \<and>
   full_text sample_response = ''Hello world''"
  using full_text_joined [OF sample_run] sample_run
  by (simp add: sample_response_def)

text \<open>
  C2 as stated fails: for the two entries \<open>Hello\<close> and \<open>world\<close> the response has the
  \<open>full_text\<close> \<open>Hello world\<close>, and the concatenation of the texts is \<open>Helloworld\<close>.
\<close>

theorem full_text_concat_counterexample:
  "generate_chapters sample_services sample_request = Inr sample_response \<and>
   full_text sample_response \<noteq> concat (map entry_text (transcript sample_response))"
  using sample_run
  by (simp add: sample_response_def sample_transcript_def)

lemma find_transcript_present:
  "code \<in> set (map language_code tracks) \<Longrightarrow>
   \<exists>t. find_transcript tracks code = Inr t \<and> language_code t = code \<and> t \<in> set tracks"
  by (induction tracks) auto

text \<open>
  C6. When no language is supplied and some listed track has the code \<open>en\<close>, the code
  \<open>en\<close> is selected, wherever that track stands in the listing: \<open>fetch_transcript\<close>
  fetches a track with the code \<open>en\<close> and, when the fetch and the formatting succeed,
  returns its entries with the language \<open>en\<close>, and every successful response has the
  language \<open>en\<close>.
\<close>

theorem english_track_preferred:
  "''en'' \<in> set (map language_code tracks) \<Longrightarrow>
   detect_language None tracks = Inr ''en'' \<and>
   (extract_video_id u = Inr vid \<and> list_transcripts svc vid = Inr tracks \<longrightarrow>
      (\<exists>t. find_transcript tracks ''en'' = Inr t \<and> language_code t = ''en'' \<and>
           fetch_transcript svc u None =
             (case fetch t of
                Inl e \<Rightarrow> Inl (HTTPException 404 (''Error fetching transcript: '' @ str e))
              | Inr es \<Rightarrow>
                  (case formatted_transcript es of
                     Inl e \<Rightarrow>
                       Inl (HTTPException 404 (''Error fetching transcript: '' @ str e))
                   | Inr formatted \<Rightarrow> Inr (formatted, ''en'')))) \<and>
      (\<forall>r. generate_chapters svc \<lparr>url = u, language = None\<rparr> = Inr r \<longrightarrow>
           detected_language r = ''en''))"
proof (intro conjI impI allI)
  assume en: "''en'' \<in> set (map language_code tracks)"
  then show d: "detect_language None tracks = Inr ''en''"
    by (simp add: detect_language_def)
  from find_transcript_present [OF en]
  obtain t where t: "find_transcript tracks ''en'' = Inr t" "language_code t = ''en''"
    by blast
  assume "extract_video_id u = Inr vid \<and> list_transcripts svc vid = Inr tracks"
  then have f: "fetch_transcript svc u None =
      (case fetch t of
         Inl e \<Rightarrow> Inl (HTTPException 404 (''Error fetching transcript: '' @ str e))
       | Inr es \<Rightarrow>
           (case formatted_transcript es of
              Inl e \<Rightarrow> Inl (HTTPException 404 (''Error fetching transcript: '' @ str e))
            | Inr formatted \<Rightarrow> Inr (formatted, ''en'')))"
    using d t by (simp add: fetch_transcript_def fetch_transcript_try_def split: sum.splits)
  with t show "\<exists>t. find_transcript tracks ''en'' = Inr t \<and> language_code t = ''en'' \<and>
      fetch_transcript svc u None =
        (case fetch t of
           Inl e \<Rightarrow> Inl (HTTPException 404 (''Error fetching transcript: '' @ str e))
         | Inr es \<Rightarrow>
             (case formatted_transcript es of
                Inl e \<Rightarrow> Inl (HTTPException 404 (''Error fetching transcript: '' @ str e))
              | Inr formatted \<Rightarrow> Inr (formatted, ''en'')))"
    by blast
  fix r
  assume "generate_chapters svc \<lparr>url = u, language = None\<rparr> = Inr r"
  from handler_success [OF this] obtain t' where
    "fetch_transcript svc u None = Inr (t', detected_language r)"
    by auto
  with f show "detected_language r = ''en''"
    by (simp split: sum.splits)
qed

theorem english_track_preferred_witness:
  "detect_language None sample_tracks = Inr ''en'' \<and>
   fetch_transcript sample_services ''https://www.youtube.com/watch?v=abc'' None =
     Inr (sample_transcript, ''en'') \<and>
   detected_language sample_response = ''en''"
proof -
  have en: "''en'' \<in> set (map language_code sample_tracks)"
    by (simp add: sample_tracks_def)
  have pre: "extract_video_id ''https://www.youtube.com/watch?v=abc'' = Inr ''abc'' \<and>
      list_transcripts sample_services ''abc'' = Inr sample_tracks"
    by (simp add: extract_sample sample_services_def)
  note rule = english_track_preferred [OF en,
      of "''https://www.youtube.com/watch?v=abc''" "''abc''" sample_services]
  have found: "find_transcript sample_tracks ''en'' = Inr t \<Longrightarrow>
      fetch t = Inr sample_entries" for t
    by (auto simp: sample_tracks_def)
  from rule have 1: "detect_language None sample_tracks = Inr ''en''" by (rule conjunct1)
  from rule [THEN conjunct2, THEN mp, OF pre, THEN conjunct1] found
  have 2: "fetch_transcript sample_services ''https://www.youtube.com/watch?v=abc'' None =
      Inr (sample_transcript, ''en'')"
    by (auto simp: formatted_sample)
  from rule [THEN conjunct2, THEN mp, OF pre, THEN conjunct2] sample_run
  have 3: "detected_language sample_response = ''en''"
    by (simp add: sample_request_def)
  from 1 2 3 show ?thesis by simp
qed

lemma refine_error:
  assumes "refine_chapters_with_gemini svc ic t = Inl e"
  shows "\<exists>x. generate_content svc model_name refine_config
            (refine_prompt (join [CHR 0x0A] (map chapter_line ic))
               (join [CHR 0x0A] (map transcript_line t))) = Inl x \<and>
          e = HTTPException 500 (''Error refining chapters with AI: '' @ str x)"
  using assms
  by (auto simp: refine_chapters_with_gemini_def Let_def refine_parse_eq split: sum.splits)

text \<open>
  C10, as amended. When the transcript is fetched and drafted and the refiner fails, the
  model call of the refiner has raised some exception, and the response has status 500
  and a body that is the detail string alone: fixed text followed by the text of that
  exception. The handler puts no transcript, full text or chapter into it.
\<close>

theorem refinement_failure_status:
  "fetch_transcript svc (url req) (language req) = Inr (t, l) \<Longrightarrow>
   generate_chapters_with_gemini svc t = Inr ic \<Longrightarrow>
   refine_chapters_with_gemini svc ic t = Inl e \<Longrightarrow>
   \<exists>x. generate_content svc model_name refine_config
          (refine_prompt (join [CHR 0x0A] (map chapter_line ic))
             (join [CHR 0x0A] (map transcript_line t))) = Inl x \<and>
       e = HTTPException 500 (''Error refining chapters with AI: '' @ str x) \<and>
       generate_chapters svc req =
         Inl (HTTPException 500
           (''An unexpected error occurred: 500: Error processing with AI: 500: '' @
            ''Error refining chapters with AI: '' @ str x))"
proof -
  assume f: "fetch_transcript svc (url req) (language req) = Inr (t, l)"
    and d: "generate_chapters_with_gemini svc t = Inr ic"
    and r: "refine_chapters_with_gemini svc ic t = Inl e"
  from refine_error [OF r] obtain x where
    x: "generate_content svc model_name refine_config
          (refine_prompt (join [CHR 0x0A] (map chapter_line ic))
             (join [CHR 0x0A] (map transcript_line t))) = Inl x"
    and e: "e = HTTPException 500 (''Error refining chapters with AI: '' @ str x)"
    by blast
  from d r e have "ai_stage svc req t l (join '' '' (map entry_text t)) =
      Inl (HTTPException 500 (''Error processing with AI: 500: '' @
        ''Error refining chapters with AI: '' @ str x))"
    by (simp add: ai_stage_def digits_status)
  with f have h: "generate_chapters svc req =
      Inl (HTTPException 500
        (''An unexpected error occurred: 500: Error processing with AI: 500: '' @
         ''Error refining chapters with AI: '' @ str x))"
    by (simp add: generate_chapters_def Let_def digits_status)
  show ?thesis
    by (rule exI [of _ x]) (intro conjI x e h)
qed

theorem refinement_failure_status_witness:
  "generate_chapters refine_failing_services sample_request =
     Inl (HTTPException 500
       (''An unexpected error occurred: 500: Error processing with AI: 500: '' @
        ''Error refining chapters with AI: quota exceeded''))"
proof -
  let ?ic = "[\<lparr>timestamp = ''00:00'', title = ''Introduction''\<rparr>]"
  have f: "fetch_transcript refine_failing_services (url sample_request)
      (language sample_request) = Inr (sample_transcript, ''en'')"
    unfolding sample_request_def
    by simp (rule fetch_sample, simp add: refine_failing_services_def)
  have d: "generate_chapters_with_gemini refine_failing_services sample_transcript = Inr ?ic"
    by (rule draft_sample) (simp add: refine_failing_services_def draft_config_def)
  have r: "refine_chapters_with_gemini refine_failing_services ?ic sample_transcript =
      Inl (HTTPException 500 (''Error refining chapters with AI: '' @ ''quota exceeded''))"
    by (simp add: refine_chapters_with_gemini_def Let_def refine_failing_services_def
        refine_config_def)
  from refinement_failure_status [OF f d r] obtain x where
    p: "generate_content refine_failing_services model_name refine_config
          (refine_prompt (join [CHR 0x0A] (map chapter_line ?ic))
             (join [CHR 0x0A] (map transcript_line sample_transcript))) = Inl x \<and>
        HTTPException 500 (''Error refining chapters with AI: '' @ ''quota exceeded'') =
          HTTPException 500 (''Error refining chapters with AI: '' @ str x) \<and>
        generate_chapters refine_failing_services sample_request =
          Inl (HTTPException 500
            (''An unexpected error occurred: 500: Error processing with AI: 500: '' @
             ''Error refining chapters with AI: '' @ str x))" ..
  from p have "str x = ''quota exceeded''" by simp
  with p [THEN conjunct2, THEN conjunct2] show ?thesis by simp
qed

lemma py_in_append: "py_in x y \<Longrightarrow> py_in x (p @ y @ q)"
  by (auto simp: py_in_iff) (metis append.assoc)

lemma py_in_join: "y \<in> set ys \<Longrightarrow> py_in x y \<Longrightarrow> py_in x (join sep ys)"
proof (induction sep ys rule: join.induct)
  case (1 sep)
  then show ?case by simp
next
  case (2 sep z)
  then show ?case by simp
next
  case (3 sep z w ws)
  show ?case
  proof (cases "y = z")
    case True
    with "3.prems" py_in_append [of x z "[]" "sep @ join sep (w # ws)"] show ?thesis by simp
  next
    case False
    with "3.prems" have "py_in x (join sep (w # ws))" by (intro "3.IH") simp_all
    from py_in_append [OF this, of "z @ sep" "[]"] show ?thesis by simp
  qed
qed

lemma py_in_refine_prompt:
  "py_in x a \<Longrightarrow> py_in x (refine_prompt a t)" "py_in x t \<Longrightarrow> py_in x (refine_prompt a t)"
proof -
  assume "py_in x a"
  then have "py_in x (''        '' @ a)"
    using py_in_append [of x a "''        ''" "[]"] by simp
  then show "py_in x (refine_prompt a t)"
    unfolding refine_prompt_def by (rule py_in_join [rotated]) simp
next
  assume "py_in x t"
  then have "py_in x (''        '' @ t)"
    using py_in_append [of x t "''        ''" "[]"] by simp
  then show "py_in x (refine_prompt a t)"
    unfolding refine_prompt_def by (rule py_in_join [rotated]) simp
qed

lemma draft_parse_greetings:
  "draft_parse ''00:00 - Greetings'' = Inr [\<lparr>timestamp = ''00:00'', title = ''Greetings''\<rparr>]"
  by code_simp

lemma echo_run:
  "generate_chapters echoing_services sample_request = Inl (HTTPException 500 echo_detail)"
proof -
  let ?ic = "[\<lparr>timestamp = ''00:00'', title = ''Greetings''\<rparr>]"
  have f: "fetch_transcript echoing_services ''https://www.youtube.com/watch?v=abc'' None =
      Inr (sample_transcript, ''en'')"
    by (rule fetch_sample) (simp add: echoing_services_def)
  have d: "generate_chapters_with_gemini echoing_services sample_transcript = Inr ?ic"
    by (simp add: generate_chapters_with_gemini_def Let_def echoing_services_def
        draft_config_def draft_parse_greetings)
  have r: "refine_chapters_with_gemini echoing_services ?ic sample_transcript =
      Inl (HTTPException 500 (''Error refining chapters with AI: '' @
        refine_prompt ''00:00 - Greetings''
          (''[00:00] Hello'' @ [CHR 0x0A] @ ''[01:05] world'')))"
    by (simp add: refine_chapters_with_gemini_def Let_def echoing_services_def
        refine_config_def chapter_line_def transcript_line_def sample_transcript_def)
  have "ai_stage echoing_services sample_request sample_transcript ''en''
      (join '' '' (map entry_text sample_transcript)) =
      Inl (HTTPException 500 (''Error processing with AI: 500: '' @
        ''Error refining chapters with AI: '' @
        refine_prompt ''00:00 - Greetings''
          (''[00:00] Hello'' @ [CHR 0x0A] @ ''[01:05] world'')))"
    by (simp add: ai_stage_def d r digits_status)
  with f show ?thesis
    by (simp add: generate_chapters_def sample_request_def Let_def digits_status
        echo_detail_def)
qed

lemma echo_detail_leaks:
  "py_in ''[00:00] Hello'' echo_detail" "py_in ''00:00 - Greetings'' echo_detail"
proof -
  have 1: "py_in ''[00:00] Hello'' (''[00:00] Hello'' @ [CHR 0x0A] @ ''[01:05] world'')"
    by code_simp
  have 2: "py_in ''00:00 - Greetings'' ''00:00 - Greetings''" by code_simp
  show "py_in ''[00:00] Hello'' echo_detail"
    unfolding echo_detail_def
    using py_in_append [OF py_in_refine_prompt(2) [OF 1],
        of "''An unexpected error occurred: 500: Error processing with AI: 500: '' @
            ''Error refining chapters with AI: ''" "''00:00 - Greetings''" "[]"]
    by (simp only: append_Nil2 append_assoc)
  show "py_in ''00:00 - Greetings'' echo_detail"
    unfolding echo_detail_def
    using py_in_append [OF py_in_refine_prompt(1) [OF 2],
        of "''An unexpected error occurred: 500: Error processing with AI: 500: '' @
            ''Error refining chapters with AI: ''" _ "[]"]
    by (simp only: append_Nil2 append_assoc)
qed

text \<open>
  C10 as stated, that no transcript and no draft data appears in the error response,
  fails for a model whose exception repeats the prompt: the detail then carries the
  transcript line \<open>[00:00] Hello\<close> and the drafted chapter \<open>00:00 - Greetings\<close>.
\<close>

theorem error_body_echo_counterexample:
  "generate_chapters echoing_services sample_request = Inl (HTTPException 500 echo_detail) \<and>
   py_in ''[00:00] Hello'' echo_detail \<and> py_in ''00:00 - Greetings'' echo_detail"
  using echo_run echo_detail_leaks by (intro conjI)

end
